theory Spec2Isabelle
  imports Complex_Main "HOL-Library.Multiset"
begin

section \<open>Python values and failures\<close>

text \<open>
  The exceptions that the two scoring engines can raise. The only \<^verbatim>\<open>raise\<close> statements
  of the source raise \<^verbatim>\<open>ValueError\<close> with a message; the other failures come from
  the interpreter: a sequence index out of range, a missing dictionary key, a division
  by zero and \<^verbatim>\<open>math.log\<close> outside its domain (a \<^verbatim>\<open>ValueError\<close> too).
  Floats are modelled as reals.
\<close>

datatype py_error = ZeroDivisionError | IndexError | KeyError | ValueError string

definition ebind :: "py_error + 'a \<Rightarrow> ('a \<Rightarrow> py_error + 'b) \<Rightarrow> py_error + 'b" where
  "ebind m f = (case m of Inl e \<Rightarrow> Inl e | Inr x \<Rightarrow> f x)"

definition py_div :: "real \<Rightarrow> real \<Rightarrow> py_error + real" where
  "py_div x y = (if y = 0 then Inl ZeroDivisionError else Inr (x / y))"

definition py_log :: "real \<Rightarrow> py_error + real" where
  "py_log x = (if x \<le> 0 then Inl (ValueError ''math domain error'') else Inr (ln x))"

definition py_index :: "'a list \<Rightarrow> int \<Rightarrow> py_error + 'a" where
  \<comment> \<open>\<^verbatim>\<open>xs[i]\<close>, where \<^verbatim>\<open>xs[-1]\<close> is the last element\<close>
  "py_index xs i =
     (if 0 \<le> i \<and> i < int (length xs) then Inr (xs ! nat i)
      else if - int (length xs) \<le> i \<and> i < 0 then Inr (xs ! nat (int (length xs) + i))
      else Inl IndexError)"

definition py_slice_to :: "'a list \<Rightarrow> int \<Rightarrow> 'a list" where
  \<comment> \<open>\<^verbatim>\<open>xs[:k]\<close>: a negative bound counts from the end\<close>
  "py_slice_to xs k =
     (if k < 0 then take (nat (int (length xs) + k)) xs else take (nat k) xs)"

definition py_sorted_desc :: "('a \<Rightarrow> real) \<Rightarrow> 'a list \<Rightarrow> 'a list" where
  \<comment> \<open>\<^verbatim>\<open>sorted(xs, key=f, reverse=True)\<close>: stable, equal keys keep their order\<close>
  "py_sorted_desc f xs = sort_key (\<lambda>x. - f x) xs"

subsection \<open>Dictionaries and counters\<close>

definition Counter :: "string list \<Rightarrow> (string \<rightharpoonup> nat)" where
  "Counter tokens = (\<lambda>t. if t \<in> set tokens then Some (count_list tokens t) else None)"

definition get_or :: "('k \<rightharpoonup> 'v) \<Rightarrow> 'k \<Rightarrow> 'v \<Rightarrow> 'v" where
  \<comment> \<open>\<^verbatim>\<open>d.get(k, default)\<close>\<close>
  "get_or d k dflt = (case d k of None \<Rightarrow> dflt | Some v \<Rightarrow> v)"

definition lookup :: "('k \<rightharpoonup> 'v) \<Rightarrow> 'k \<Rightarrow> py_error + 'v" where
  \<comment> \<open>\<^verbatim>\<open>d[k]\<close>\<close>
  "lookup d k = (if k \<in> dom d then Inr (the (d k)) else Inl KeyError)"

section \<open>Tokenizer\<close>

text \<open>
  \<^verbatim>\<open>text.lower().split()\<close> on ASCII text: the letters A to Z are folded, and the
  text is cut at runs of white space (tab, line feed, vertical tab, form feed, carriage
  return, the four separators 28 to 31 and the space), empty pieces dropped. Characters
  beyond ASCII, which Python folds and splits by their Unicode properties, are left as
  they are; no statement below depends on them.
\<close>

definition lower_char :: "char \<Rightarrow> char" where
  "lower_char c =
     (let n = (of_char c :: nat) in if 65 \<le> n \<and> n \<le> 90 then char_of (n + 32) else c)"

definition isspace :: "char \<Rightarrow> bool" where
  "isspace c = (let n = (of_char c :: nat) in (9 \<le> n \<and> n \<le> 13) \<or> (28 \<le> n \<and> n \<le> 32))"

fun split_from :: "string \<Rightarrow> string \<Rightarrow> string list" where
  "split_from cur [] = (if cur = [] then [] else [cur])"
| "split_from cur (c # cs) =
     (if isspace c then (if cur = [] then split_from [] cs else cur # split_from [] cs)
      else split_from (cur @ [c]) cs)"

definition preprocess_text :: "string \<Rightarrow> string list" where
  "preprocess_text text = split_from [] (map lower_char text)"

section \<open>The BM25 calculator\<close>

record bm25 =
  k1 :: real
  b :: real
  documents :: "string list"
  doc_lengths :: "nat list"
  avg_doc_length :: real
  vocabulary :: "string set"
  doc_term_freqs :: "(string \<rightharpoonup> nat) list"
  idf_scores :: "string \<rightharpoonup> real"
  N :: nat

text \<open>
  \<^verbatim>\<open>BM25Calculator.__init__\<close> stores its two arguments and empties every other
  field. It has no check and no \<^verbatim>\<open>raise\<close>; the result type keeps a place for a
  failure so that its absence is a statement.
\<close>

definition BM25Calculator :: "real \<Rightarrow> real \<Rightarrow> py_error + bm25" where
  "BM25Calculator k1' b' =
     Inr \<lparr>k1 = k1', b = b', documents = [], doc_lengths = [], avg_doc_length = 0,
          vocabulary = {}, doc_term_freqs = [], idf_scores = Map.empty, N = 0\<rparr>"

text \<open>
  The first loop of \<^verbatim>\<open>fit\<close>: each document is tokenized, appended to
  \<^verbatim>\<open>processed_docs\<close>, its length appended to \<^verbatim>\<open>doc_lengths\<close> and its tokens added to
  the vocabulary. The accumulator holds these three.
\<close>

fun fit_loop :: "string list \<Rightarrow> string list list \<times> nat list \<times> string set \<Rightarrow>
    string list list \<times> nat list \<times> string set" where
  "fit_loop [] acc = acc"
| "fit_loop (doc # docs) (processed_docs, lens, vocab) =
     (let tokens = preprocess_text doc
      in fit_loop docs (processed_docs @ [tokens], lens @ [length tokens], vocab \<union> set tokens))"

text \<open>
  \<^verbatim>\<open>_calculate_idf_scores\<close>: for every term of the vocabulary, the number of
  tokenized documents containing it and the smoothed logarithm. The loop runs over a
  Python set, in an order the language does not fix; each round writes one key of the
  table, so the table after a complete run does not depend on the order. When
  \<^verbatim>\<open>math.log\<close> raises, the table is left as an interrupted run leaves it; the model
  takes the run interrupted in its first round.
\<close>

definition doc_count_of :: "string \<Rightarrow> string list list \<Rightarrow> nat" where
  "doc_count_of term processed_docs = length (filter (\<lambda>doc. term \<in> set doc) processed_docs)"

definition idf_of :: "nat \<Rightarrow> string list list \<Rightarrow> string \<Rightarrow> py_error + real" where
  "idf_of n processed_docs term =
     (let doc_count = doc_count_of term processed_docs
      in py_log ((real n - real doc_count + 0.5) / (real doc_count + 0.5)))"

definition calculate_idf_scores :: "bm25 \<Rightarrow> string list list \<Rightarrow> (py_error + unit) \<times> bm25" where
  "calculate_idf_scores s processed_docs =
     (if \<exists>term \<in> vocabulary s. isl (idf_of (N s) processed_docs term)
      then (Inl (ValueError ''math domain error''), s)
      else (Inr (),
            s\<lparr>idf_scores := (\<lambda>term. if term \<in> vocabulary s
                                     then Some (projr (idf_of (N s) processed_docs term))
                                     else idf_scores s term)\<rparr>))"

text \<open>
  \<^verbatim>\<open>fit\<close> returns nothing; the model returns the failure, if any, and the object as
  the call leaves it, also when it raises.
\<close>

definition fit :: "bm25 \<Rightarrow> string list \<Rightarrow> (py_error + unit) \<times> bm25" where
  "fit s docs =
     (let s1 = s\<lparr>documents := docs, N := length docs\<rparr>;
          (processed_docs, lens, vocab) = fit_loop docs ([], [], vocabulary s1);
          s2 = s1\<lparr>doc_lengths := lens, vocabulary := vocab\<rparr>
      in if length lens = 0 then (Inl ZeroDivisionError, s2)
         else
           (let s3 = s2\<lparr>avg_doc_length := real (sum_list lens) / real (length lens)\<rparr>;
                s4 = s3\<lparr>doc_term_freqs := map Counter processed_docs\<rparr>
            in calculate_idf_scores s4 processed_docs))"

section \<open>BM25 scoring\<close>

text \<open>
  The four statements that \<^verbatim>\<open>calculate_bm25_score\<close>, \<^verbatim>\<open>get_term_analysis\<close> and
  \<^verbatim>\<open>get_top_keywords\<close> repeat for one term, in the source's order: the lookup in the
  IDF table, the length normalization and the term score. The result holds the three
  values \<^verbatim>\<open>idf\<close>, \<^verbatim>\<open>length_norm\<close> and \<^verbatim>\<open>term_score\<close>.
\<close>

definition term_contribution :: "bm25 \<Rightarrow> string \<Rightarrow> nat \<Rightarrow> nat \<Rightarrow> py_error + real \<times> real \<times> real" where
  "term_contribution s term tf doc_length =
     ebind (lookup (idf_scores s) term) (\<lambda>idf.
     ebind (py_div (real doc_length) (avg_doc_length s)) (\<lambda>ratio.
       let length_norm = 1 - b s + b s * ratio
       in ebind (py_div (idf * (real tf * (k1 s + 1))) (real tf + k1 s * length_norm))
            (\<lambda>term_score. Inr (idf, length_norm, term_score))))"

fun score_loop :: "bm25 \<Rightarrow> (string \<rightharpoonup> nat) \<Rightarrow> nat \<Rightarrow> string list \<Rightarrow> real \<Rightarrow> py_error + real" where
  "score_loop s doc_term_freq doc_length [] score = Inr score"
| "score_loop s doc_term_freq doc_length (term # terms) score =
     (if term \<notin> vocabulary s then score_loop s doc_term_freq doc_length terms score
      else ebind (term_contribution s term (get_or doc_term_freq term 0) doc_length)
             (\<lambda>(idf, length_norm, term_score).
                score_loop s doc_term_freq doc_length terms (score + term_score)))"

definition calculate_bm25_score :: "bm25 \<Rightarrow> string \<Rightarrow> int \<Rightarrow> py_error + real" where
  "calculate_bm25_score s query doc_idx =
     (let query_terms = preprocess_text query
      in ebind (py_index (doc_term_freqs s) doc_idx) (\<lambda>doc_term_freq.
         ebind (py_index (doc_lengths s) doc_idx) (\<lambda>doc_length.
           score_loop s doc_term_freq doc_length query_terms 0)))"

text \<open>
  \<^verbatim>\<open>rank_documents\<close>: the loop over \<^verbatim>\<open>range(len(self.documents))\<close> appends one
  triple per document and stops at the first score that raises; then the stable sort,
  largest score first, and the slice when \<^verbatim>\<open>top_k\<close> is not \<^verbatim>\<open>None\<close>.
\<close>

fun rank_loop :: "bm25 \<Rightarrow> string \<Rightarrow> nat list \<Rightarrow> (nat \<times> string \<times> real) list \<Rightarrow>
    py_error + (nat \<times> string \<times> real) list" where
  "rank_loop s query [] scores = Inr scores"
| "rank_loop s query (i # is) scores =
     ebind (calculate_bm25_score s query (int i))
       (\<lambda>score. rank_loop s query is (scores @ [(i, documents s ! i, score)]))"

definition rank_documents :: "bm25 \<Rightarrow> string \<Rightarrow> int option \<Rightarrow>
    py_error + (nat \<times> string \<times> real) list" where
  "rank_documents s query top_k =
     ebind (rank_loop s query [0 ..< length (documents s)] []) (\<lambda>scores.
       let sorted_scores = py_sorted_desc (\<lambda>x. snd (snd x)) scores
       in case top_k of None \<Rightarrow> Inr sorted_scores
          | Some k \<Rightarrow> Inr (py_slice_to sorted_scores k))"

subsection \<open>The explanation of one document's score\<close>

record term_entry =
  te_term :: string
  te_query_count :: nat
  te_doc_tf :: nat
  te_idf :: real
  te_length_norm :: real
  te_term_score :: real
  te_weighted_score :: real

record analysis =
  document_index :: int
  document_length :: nat
  an_avg_doc_length :: real
  length_ratio :: real
  terms :: "term_entry list"
  total_score :: real

text \<open>
  The loops of \<^verbatim>\<open>get_term_analysis\<close> and \<^verbatim>\<open>get_top_keywords\<close> run over
  \<^verbatim>\<open>set(query_terms)\<close>, whose iteration order Python does not fix. The order is an
  argument of the model: \<open>order\<close> lists the distinct query terms as the set yields them.
\<close>

fun analysis_loop :: "bm25 \<Rightarrow> (string \<rightharpoonup> nat) \<Rightarrow> nat \<Rightarrow> string list \<Rightarrow> string list \<Rightarrow>
    term_entry list \<times> real \<Rightarrow> py_error + term_entry list \<times> real" where
  "analysis_loop s doc_term_freq doc_length query_terms [] acc = Inr acc"
| "analysis_loop s doc_term_freq doc_length query_terms (term # rest) (entries, running_total) =
     (if term \<notin> vocabulary s
      then analysis_loop s doc_term_freq doc_length query_terms rest (entries, running_total)
      else
        (let tf = get_or doc_term_freq term 0
         in ebind (term_contribution s term tf doc_length)
              (\<lambda>(idf, length_norm, term_score).
                 let query_count = count_list query_terms term;
                     weighted_score = term_score * real query_count
                 in analysis_loop s doc_term_freq doc_length query_terms rest
                      (entries @ [\<lparr>te_term = term, te_query_count = query_count, te_doc_tf = tf,
                                    te_idf = idf, te_length_norm = length_norm,
                                    te_term_score = term_score,
                                    te_weighted_score = weighted_score\<rparr>],
                       running_total + weighted_score))))"

definition get_term_analysis :: "bm25 \<Rightarrow> string \<Rightarrow> int \<Rightarrow> string list \<Rightarrow> py_error + analysis" where
  "get_term_analysis s query doc_idx order =
     (let query_terms = preprocess_text query
      in ebind (py_index (doc_term_freqs s) doc_idx) (\<lambda>doc_term_freq.
         ebind (py_index (doc_lengths s) doc_idx) (\<lambda>doc_length.
         ebind (py_div (real doc_length) (avg_doc_length s)) (\<lambda>ratio.
         ebind (analysis_loop s doc_term_freq doc_length query_terms order ([], 0))
           (\<lambda>(entries, running_total).
              Inr \<lparr>document_index = doc_idx, document_length = doc_length,
                   an_avg_doc_length = avg_doc_length s, length_ratio = ratio,
                   terms = entries, total_score = running_total\<rparr>)))))"

subsection \<open>Keywords of a query\<close>

text \<open>
  The inner loop of \<^verbatim>\<open>get_top_keywords\<close> over the document indices; the accumulator
  is \<^verbatim>\<open>(total_contribution, doc_count)\<close>.
\<close>

fun contribution_loop :: "bm25 \<Rightarrow> string \<Rightarrow> nat list \<Rightarrow> real \<times> nat \<Rightarrow> py_error + real \<times> nat" where
  "contribution_loop s term [] acc = Inr acc"
| "contribution_loop s term (doc_idx # rest) (total_contribution, doc_count) =
     ebind (py_index (doc_term_freqs s) (int doc_idx)) (\<lambda>doc_term_freq.
       let tf = get_or doc_term_freq term 0
       in if tf > 0
          then ebind (lookup (idf_scores s) term) (\<lambda>idf.
               ebind (py_index (doc_lengths s) (int doc_idx)) (\<lambda>doc_length.
               ebind (term_contribution s term tf doc_length) (\<lambda>(idf', length_norm, term_score).
                 contribution_loop s term rest (total_contribution + term_score, doc_count + 1))))
          else contribution_loop s term rest (total_contribution, doc_count))"

text \<open>
  The outer loop fills the dictionary \<^verbatim>\<open>term_scores\<close>; its keys are distinct because
  \<open>order\<close> is, so the dictionary is the list of its items in insertion order.
\<close>

fun keyword_loop :: "bm25 \<Rightarrow> string list \<Rightarrow> (string \<times> real) list \<Rightarrow> py_error + (string \<times> real) list" where
  "keyword_loop s [] term_scores = Inr term_scores"
| "keyword_loop s (term # rest) term_scores =
     (if term \<notin> vocabulary s then keyword_loop s rest term_scores
      else ebind (contribution_loop s term [0 ..< length (documents s)] (0, 0))
             (\<lambda>(total_contribution, doc_count).
                if doc_count > 0
                then keyword_loop s rest
                       (term_scores @ [(term, total_contribution / real doc_count)])
                else keyword_loop s rest term_scores))"

definition get_top_keywords :: "bm25 \<Rightarrow> string \<Rightarrow> int \<Rightarrow> string list \<Rightarrow>
    py_error + (string \<times> real) list" where
  "get_top_keywords s query top_k order =
     ebind (keyword_loop s order []) (\<lambda>term_scores.
       Inr (py_slice_to (py_sorted_desc snd term_scores) top_k))"

section \<open>The BM25 document ranker\<close>

record ranker =
  bm25_calc :: bm25
  ranker_documents :: "string list"
  fitted :: bool

definition BM25DocumentRanker :: "real \<Rightarrow> real \<Rightarrow> py_error + ranker" where
  "BM25DocumentRanker k1' b' =
     ebind (BM25Calculator k1' b')
       (\<lambda>calc. Inr \<lparr>bm25_calc = calc, ranker_documents = [], fitted = False\<rparr>)"

definition ranker_fit :: "ranker \<Rightarrow> string list \<Rightarrow> (py_error + unit) \<times> ranker" where
  "ranker_fit r docs =
     (let r1 = r\<lparr>ranker_documents := docs\<rparr>;
          (res, calc) = fit (bm25_calc r1) docs;
          r2 = r1\<lparr>bm25_calc := calc\<rparr>
      in case res of Inl e \<Rightarrow> (Inl e, r2) | Inr u \<Rightarrow> (Inr (), r2\<lparr>fitted := True\<rparr>))"

definition search :: "ranker \<Rightarrow> string \<Rightarrow> int option \<Rightarrow> py_error + (nat \<times> string \<times> real) list" where
  "search r query top_k =
     (if \<not> fitted r then Inl (ValueError ''Ranker must be fitted before searching'')
      else rank_documents (bm25_calc r) query top_k)"

section \<open>The TF-IDF calculator\<close>

record tfidf =
  tfidf_documents :: "string list list"
  tfidf_vocabulary :: "string set"
  tfidf_idf_scores :: "string \<rightharpoonup> real"

definition TFIDFCalculator :: tfidf where
  "TFIDFCalculator = \<lparr>tfidf_documents = [], tfidf_vocabulary = {}, tfidf_idf_scores = Map.empty\<rparr>"

definition calculate_tf :: "string \<Rightarrow> string list \<Rightarrow> real" where
  "calculate_tf term document =
     (if length document = 0 then 0
      else real (count_list document term) / real (length document))"

definition calculate_idf :: "string \<Rightarrow> string list list \<Rightarrow> py_error + real" where
  "calculate_idf term docs =
     (let total_documents = length docs;
          documents_with_term = length (filter (\<lambda>doc. term \<in> set doc) docs)
      in if documents_with_term = 0 then Inr 0
         else ebind (py_div (real total_documents) (real documents_with_term)) py_log)"

text \<open>
  \<^verbatim>\<open>TFIDFCalculator.fit\<close>: the tokenized documents replace the old ones, their tokens
  are added to the vocabulary, and the IDF of every vocabulary term is written to the
  table. As for BM25, the run over the set is modelled by its result, and a run that
  raises by one interrupted in its first round.
\<close>

definition tfidf_fit :: "tfidf \<Rightarrow> string list \<Rightarrow> (py_error + unit) \<times> tfidf" where
  "tfidf_fit s docs =
     (let s1 = s\<lparr>tfidf_documents := map preprocess_text docs\<rparr>;
          s2 = s1\<lparr>tfidf_vocabulary :=
                     fold (\<lambda>doc vocab. vocab \<union> set doc) (tfidf_documents s1) (tfidf_vocabulary s1)\<rparr>
      in if \<exists>term \<in> tfidf_vocabulary s2. isl (calculate_idf term (tfidf_documents s2))
         then (Inl (ValueError ''math domain error''), s2)
         else (Inr (),
               s2\<lparr>tfidf_idf_scores :=
                     (\<lambda>term. if term \<in> tfidf_vocabulary s2
                              then Some (projr (calculate_idf term (tfidf_documents s2)))
                              else tfidf_idf_scores s2 term)\<rparr>))"

fun vector_loop :: "tfidf \<Rightarrow> string list \<Rightarrow> string list \<Rightarrow> (string \<rightharpoonup> real) \<Rightarrow>
    py_error + (string \<rightharpoonup> real)" where
  "vector_loop s tokens [] tfidf_vector = Inr tfidf_vector"
| "vector_loop s tokens (term # rest) tfidf_vector =
     (if term \<in> tfidf_vocabulary s
      then (let tf = calculate_tf term tokens
            in ebind (lookup (tfidf_idf_scores s) term)
                 (\<lambda>idf. vector_loop s tokens rest (tfidf_vector(term \<mapsto> tf * idf))))
      else vector_loop s tokens rest tfidf_vector)"

definition calculate_tfidf_vector :: "tfidf \<Rightarrow> string \<Rightarrow> py_error + (string \<rightharpoonup> real)" where
  "calculate_tfidf_vector s text =
     (if tfidf_documents s = []
      then Inl (ValueError ''Must call fit() with documents before calculating TF-IDF'')
      else vector_loop s (preprocess_text text) (preprocess_text text) Map.empty)"

section \<open>The formulas of the specification\<close>

text \<open>
  The quantities that the specification names, written from its words over the tokenized
  corpus \<open>pd\<close>: the document frequency (the number of documents whose term map holds
  the term with a count above zero), the smoothed inverse document frequency, the
  average length, the length normalization, the score of one term in one document and
  the score of a query. They are compared below with what the code computes.
\<close>

definition spec_df :: "string list list \<Rightarrow> string \<Rightarrow> nat" where
  "spec_df pd t = length (filter (\<lambda>doc. count_list doc t > 0) pd)"

definition spec_idf :: "string list list \<Rightarrow> string \<Rightarrow> real" where
  "spec_idf pd t =
     ln ((real (length pd) - real (spec_df pd t) + 0.5) / (real (spec_df pd t) + 0.5))"

definition spec_avg :: "string list list \<Rightarrow> real" where
  "spec_avg pd = real (sum_list (map length pd)) / real (length pd)"

definition spec_length_norm :: "real \<Rightarrow> string list list \<Rightarrow> nat \<Rightarrow> real" where
  "spec_length_norm bb pd d = 1 - bb + bb * (real (length (pd ! d)) / spec_avg pd)"

definition spec_term_score :: "real \<Rightarrow> real \<Rightarrow> string list list \<Rightarrow> nat \<Rightarrow> string \<Rightarrow> real" where
  "spec_term_score kk bb pd d t =
     spec_idf pd t * (real (count_list (pd ! d) t) * (kk + 1)) /
       (real (count_list (pd ! d) t) + kk * spec_length_norm bb pd d)"

definition spec_score ::
    "real \<Rightarrow> real \<Rightarrow> string set \<Rightarrow> string list list \<Rightarrow> nat \<Rightarrow> string list \<Rightarrow> real" where
  \<comment> \<open>one summand for each occurrence of a query token that is in the vocabulary\<close>
  "spec_score kk bb vocab pd d q =
     sum_list (map (spec_term_score kk bb pd d) (filter (\<lambda>t. t \<in> vocab) q))"

definition spec_defined :: "real \<Rightarrow> real \<Rightarrow> string list list \<Rightarrow> nat \<Rightarrow> string \<Rightarrow> bool" where
  \<comment> \<open>the two divisions of the term score have a divisor other than zero\<close>
  "spec_defined kk bb pd d t =
     (spec_avg pd \<noteq> 0 \<and> real (count_list (pd ! d) t) + kk * spec_length_norm bb pd d \<noteq> 0)"

definition spec_docs_with :: "string list list \<Rightarrow> string \<Rightarrow> nat list" where
  \<comment> \<open>the documents in which the term has nonzero term frequency\<close>
  "spec_docs_with pd t = filter (\<lambda>d. 0 < count_list (pd ! d) t) [0 ..< length pd]"

definition spec_mean_score :: "real \<Rightarrow> real \<Rightarrow> string list list \<Rightarrow> string \<Rightarrow> real" where
  \<comment> \<open>the arithmetic mean of the term score over these documents only\<close>
  "spec_mean_score kk bb pd t =
     sum_list (map (\<lambda>d. spec_term_score kk bb pd d t) (spec_docs_with pd t)) /
       real (length (spec_docs_with pd t))"

definition spec_tfidf_idf :: "string list list \<Rightarrow> string \<Rightarrow> real" where
  \<comment> \<open>the unsmoothed inverse document frequency of the TF-IDF scorer\<close>
  "spec_tfidf_idf pd t =
     (if spec_df pd t > 0 then ln (real (length pd) / real (spec_df pd t)) else 0)"

section \<open>Sequences of calls and concrete objects\<close>

text \<open>
  The vocabulary that a call of \<^verbatim>\<open>fit\<close> leaves: the one it found and the tokens of the
  documents.
\<close>

definition fitted_vocabulary :: "string set \<Rightarrow> string list \<Rightarrow> string set" where
  "fitted_vocabulary v docs = v \<union> \<Union> (set ` preprocess_text ` set docs)"

text \<open>
  The objects that a program can hold: a freshly constructed one, and any object after
  one more call of \<^verbatim>\<open>fit\<close>, whether the call returned or raised.
\<close>

inductive bm25_reachable :: "bm25 \<Rightarrow> bool" where
  constructed: "BM25Calculator kk bb = Inr s \<Longrightarrow> bm25_reachable s"
| after_fit: "bm25_reachable s \<Longrightarrow> fit s docs = (r, s') \<Longrightarrow> bm25_reachable s'"

inductive tfidf_reachable :: "tfidf \<Rightarrow> bool" where
  tfidf_constructed: "tfidf_reachable TFIDFCalculator"
| tfidf_after_fit: "tfidf_reachable s \<Longrightarrow> tfidf_fit s docs = (r, s') \<Longrightarrow> tfidf_reachable s'"

text \<open>
  A corpus of three documents, fitted by a BM25 calculator with the default parameters,
  by one constructed with \<open>k1 = -2\<close> and \<open>b = 2\<close>, and by the TF-IDF calculator. The
  second fit below is to the single document \<open>a\<close>.
\<close>

definition example_corpus :: "string list" where
  "example_corpus = [''the cat sat'', ''the dog ran'', ''cats and dogs'']"

definition example_calculator :: bm25 where
  "example_calculator = snd (fit (projr (BM25Calculator 1.2 0.75)) example_corpus)"

definition invalid_calculator :: bm25 where
  "invalid_calculator = snd (fit (projr (BM25Calculator (- 2) 2)) example_corpus)"

text \<open>
  A calculator fitted to one document without a token, and one with \<open>b = 1\<close> fitted to a
  corpus that has a document without a token.
\<close>

definition tokenless_calculator :: bm25 where
  "tokenless_calculator = snd (fit (projr (BM25Calculator 1.2 0.75)) [''''])"

definition edge_calculator :: bm25 where
  "edge_calculator = snd (fit (projr (BM25Calculator 1.2 1)) [''a'', ''''])"

text \<open>The two default calculators fitted a second time.\<close>

definition refitted_calculator :: bm25 where
  "refitted_calculator = snd (fit example_calculator [''a''])"

definition example_tfidf :: tfidf where
  "example_tfidf = snd (tfidf_fit TFIDFCalculator example_corpus)"

definition refitted_tfidf :: tfidf where
  "refitted_tfidf = snd (tfidf_fit example_tfidf [''a''])"

section \<open>Facts about the model\<close>

subsection \<open>Python values\<close>

lemma ebind_simps [simp]: "ebind (Inl e) f = Inl e" "ebind (Inr x) f = f x"
  by (simp_all add: ebind_def)

lemma py_index_nat: "i < length xs \<Longrightarrow> py_index xs (int i) = Inr (xs ! i)"
  by (simp add: py_index_def)

lemma py_index_IndexError:
  "py_index xs i = Inl IndexError \<longleftrightarrow> i < - int (length xs) \<or> int (length xs) \<le> i"
  by (auto simp: py_index_def)




lemma count_list_pos_iff: "count_list xs x > 0 \<longleftrightarrow> x \<in> set xs"
  by (induction xs) auto

lemma get_or_Counter: "get_or (Counter tokens) t 0 = count_list tokens t"
  by (simp add: get_or_def Counter_def count_list_pos_iff [symmetric])

lemma sum_list_pos_iff: "0 < sum_list (ns :: nat list) \<longleftrightarrow> (\<exists>n \<in> set ns. 0 < n)"
  by (induction ns) auto

subsection \<open>Sorting\<close>




lemma py_sorted_desc_mset [simp]: "mset (py_sorted_desc f xs) = mset xs"
  by (simp add: py_sorted_desc_def)

lemma py_sorted_desc_map_mset: "mset (map g (py_sorted_desc f xs)) = mset (map g xs)"
  unfolding py_sorted_desc_def by (metis mset_map mset_sort)

lemma py_sorted_desc_set [simp]: "set (py_sorted_desc f xs) = set xs"
  by (simp add: py_sorted_desc_def)

lemma py_sorted_desc_length [simp]: "length (py_sorted_desc f xs) = length xs"
  by (simp add: py_sorted_desc_def)

lemma py_sorted_desc_sorted:
  "sorted_wrt (\<lambda>x y. f x \<ge> f y) (py_sorted_desc f xs)"
proof -
  have "sorted (map (\<lambda>x. - f x) (sort_key (\<lambda>x. - f x) xs))"
    by (rule sorted_sort_key)
  then show ?thesis
    by (simp add: py_sorted_desc_def sorted_map sorted_wrt_iff_nth_less)
qed

subsection \<open>Fitting\<close>

text \<open>
  The argument of the logarithm is positive whenever \<^verbatim>\<open>N\<close> is the number of tokenized
  documents, as it is in \<^verbatim>\<open>fit\<close>: neither \<^verbatim>\<open>fit\<close> raises a \<^verbatim>\<open>ValueError\<close>. The
  BM25 \<^verbatim>\<open>fit\<close> fails exactly on the empty sequence; the TF-IDF \<^verbatim>\<open>fit\<close> never fails.
\<close>

lemma fit_loop_eq:
  "fit_loop docs (pd, ls, v) =
     (pd @ map preprocess_text docs, ls @ map (\<lambda>d. length (preprocess_text d)) docs,
      v \<union> \<Union> (set ` preprocess_text ` set docs))"
  by (induction docs arbitrary: pd ls v) (auto simp: Let_def)

lemma doc_count_of_le: "doc_count_of t pd \<le> length pd"
  by (simp add: doc_count_of_def)

lemma idf_of_fitted:
  "idf_of (length pd) pd t =
     Inr (ln ((real (length pd) - real (doc_count_of t pd) + 0.5) / (real (doc_count_of t pd) + 0.5)))"
proof -
  have "real (doc_count_of t pd) \<le> real (length pd)"
    using doc_count_of_le by simp
  then have "0 < (real (length pd) - real (doc_count_of t pd) + 0.5) / (real (doc_count_of t pd) + 0.5)"
    by (intro divide_pos_pos) auto
  then show ?thesis
    by (simp add: idf_of_def py_log_def Let_def)
qed

lemma fit_empty:
  "fit s [] = (Inl ZeroDivisionError, s\<lparr>documents := [], doc_lengths := [], N := 0\<rparr>)"
  by (simp add: fit_def)

lemma fit_nonempty:
  assumes "docs \<noteq> []"
  shows "fit s docs =
    (Inr (),
     s\<lparr>documents := docs, N := length docs,
       doc_lengths := map (\<lambda>d. length (preprocess_text d)) docs,
       vocabulary := fitted_vocabulary (vocabulary s) docs,
       avg_doc_length := real (sum_list (map (\<lambda>d. length (preprocess_text d)) docs)) / real (length docs),
       doc_term_freqs := map (\<lambda>d. Counter (preprocess_text d)) docs,
       idf_scores := (\<lambda>term. if term \<in> fitted_vocabulary (vocabulary s) docs
                              then Some (ln ((real (length docs) - real (doc_count_of term (map preprocess_text docs)) + 0.5) / (real (doc_count_of term (map preprocess_text docs)) + 0.5)))
                              else idf_scores s term)\<rparr>)"
  using assms idf_of_fitted [of "map preprocess_text docs"]
  by (simp add: fit_def fit_loop_eq calculate_idf_scores_def fitted_vocabulary_def Let_def comp_def cong: if_cong)

lemma spec_df_eq: "spec_df pd t = doc_count_of t pd"
  by (simp add: spec_df_def doc_count_of_def count_list_pos_iff)

lemma fit_success:
  assumes "fit s0 docs = (Inr (), s)"
  shows "docs \<noteq> []" and "documents s = docs" and "N s = length docs"
    and "doc_lengths s = map length (map preprocess_text docs)"
    and "doc_term_freqs s = map Counter (map preprocess_text docs)"
    and "avg_doc_length s = spec_avg (map preprocess_text docs)"
    and "vocabulary s = fitted_vocabulary (vocabulary s0) docs"
    and "\<And>t. t \<in> vocabulary s \<Longrightarrow> idf_scores s t = Some (spec_idf (map preprocess_text docs) t)"
    and "\<And>t. t \<notin> vocabulary s \<Longrightarrow> idf_scores s t = idf_scores s0 t"
    and "k1 s = k1 s0" and "b s = b s0"
proof -
  show ne: "docs \<noteq> []"
    using assms by (auto simp: fit_empty)
  note eq = assms [unfolded fit_nonempty [OF ne], simplified, symmetric]
  show "documents s = docs" "N s = length docs" "k1 s = k1 s0" "b s = b s0"
    "vocabulary s = fitted_vocabulary (vocabulary s0) docs"
    by (simp_all add: eq)
  show "doc_lengths s = map length (map preprocess_text docs)"
    "doc_term_freqs s = map Counter (map preprocess_text docs)"
    "avg_doc_length s = spec_avg (map preprocess_text docs)"
    by (simp_all add: eq spec_avg_def comp_def)
  show "\<And>t. t \<in> vocabulary s \<Longrightarrow> idf_scores s t = Some (spec_idf (map preprocess_text docs) t)"
    by (simp add: eq spec_idf_def spec_df_eq)
  show "\<And>t. t \<notin> vocabulary s \<Longrightarrow> idf_scores s t = idf_scores s0 t"
    by (simp add: eq)
qed


lemma calculate_idf_eq: "calculate_idf t pd = Inr (spec_tfidf_idf pd t)"
proof (cases "doc_count_of t pd = 0")
  case True
  then show ?thesis
    by (simp add: calculate_idf_def spec_tfidf_idf_def spec_df_eq doc_count_of_def)
next
  case False
  then have "0 < real (doc_count_of t pd)" by simp
  moreover have "real (doc_count_of t pd) \<le> real (length pd)"
    using doc_count_of_le by simp
  ultimately have "0 < real (length pd) / real (doc_count_of t pd)"
    by (intro divide_pos_pos) auto
  with False show ?thesis
    by (simp add: calculate_idf_def spec_tfidf_idf_def spec_df_eq doc_count_of_def
        py_div_def py_log_def Let_def)
qed

lemma fold_vocabulary: "fold (\<lambda>doc vocab. vocab \<union> set doc) pd v = v \<union> \<Union> (set ` set pd)"
  by (induction pd arbitrary: v) auto

lemma tfidf_fit_eq:
  "tfidf_fit s docs =
     (Inr (),
      s\<lparr>tfidf_documents := map preprocess_text docs,
        tfidf_vocabulary := fitted_vocabulary (tfidf_vocabulary s) docs,
        tfidf_idf_scores :=
          (\<lambda>term. if term \<in> fitted_vocabulary (tfidf_vocabulary s) docs
                   then Some (spec_tfidf_idf (map preprocess_text docs) term)
                   else tfidf_idf_scores s term)\<rparr>)"
  by (simp add: tfidf_fit_def Let_def calculate_idf_eq fold_vocabulary fitted_vocabulary_def
      cong: if_cong)

lemma fit_replaces_corpus:
  assumes "fit s docs = (Inr (), s')" and "fit c docs = (Inr (), c')"
  shows "documents s' = documents c'" and "N s' = N c'" and "doc_lengths s' = doc_lengths c'"
    and "avg_doc_length s' = avg_doc_length c'" and "doc_term_freqs s' = doc_term_freqs c'"
    and "\<And>t. t \<in> vocabulary c' \<Longrightarrow> t \<in> vocabulary s' \<Longrightarrow> idf_scores s' t = idf_scores c' t"
  by (simp_all add: fit_success [OF assms(1)] fit_success [OF assms(2)])

subsection \<open>Scoring one term\<close>

lemma term_contribution_eq:
  assumes "idf_scores s t = Some idf"
  shows "term_contribution s t tf dl =
    (if avg_doc_length s = 0 \<or> real tf + k1 s * (1 - b s + b s * (real dl / avg_doc_length s)) = 0
     then Inl ZeroDivisionError
     else Inr (idf, 1 - b s + b s * (real dl / avg_doc_length s),
               idf * (real tf * (k1 s + 1)) /
                 (real tf + k1 s * (1 - b s + b s * (real dl / avg_doc_length s)))))"
  using assms by (simp add: term_contribution_def lookup_def py_div_def Let_def dom_def)

lemma term_contribution_cases:
  assumes "idf_scores s t = Some idf"
  shows "(\<exists>r. term_contribution s t tf dl = Inr r) \<or>
    term_contribution s t tf dl = Inl ZeroDivisionError"
  by (simp add: term_contribution_eq [OF assms])

lemma term_contribution_no_IndexError: "term_contribution s t tf dl \<noteq> Inl IndexError"
  by (auto simp: term_contribution_def lookup_def py_div_def ebind_def Let_def split: sum.splits)



lemma spec_avg_pos:
  assumes "d < length pd" and "pd ! d \<noteq> []"
  shows "0 < spec_avg pd"
proof -
  have "pd ! d \<in> set pd" using assms(1) by simp
  then have "\<exists>n \<in> set (map length pd). 0 < n"
    using assms(2) by auto
  then have "0 < sum_list (map length pd)"
    by (simp only: sum_list_pos_iff)
  moreover have "0 < length pd" using assms(1) by auto
  ultimately show ?thesis
    by (simp add: spec_avg_def)
qed


lemma spec_defined_tf_pos:
  assumes "0 < kk" and "0 \<le> bb" and "bb \<le> 1" and "d < length pd"
    and "0 < count_list (pd ! d) t"
  shows "spec_defined kk bb pd d t"
proof -
  have ne: "pd ! d \<noteq> []" using assms(5) by auto
  have avg: "0 < spec_avg pd" using spec_avg_pos [OF assms(4) ne] .
  have "0 \<le> bb * (real (length (pd ! d)) / spec_avg pd)"
    using assms(2) avg by simp
  then have "0 \<le> 1 - bb + bb * (real (length (pd ! d)) / spec_avg pd)"
    using assms(3) by linarith
  then have "0 \<le> kk * (1 - bb + bb * (real (length (pd ! d)) / spec_avg pd))"
    using assms(1) by simp
  then have "0 < real (count_list (pd ! d) t) + kk * (1 - bb + bb * (real (length (pd ! d)) / spec_avg pd))"
    using assms(5) by (simp add: add_pos_nonneg)
  then show ?thesis
    using avg by (simp add: spec_defined_def spec_length_norm_def)
qed

subsection \<open>The score of a document\<close>

lemma score_loop_eq:
  assumes "\<And>t. t \<in> vocabulary s \<Longrightarrow> idf_scores s t = Some (spec_idf pd t)"
    and "avg_doc_length s = spec_avg pd"
  shows "score_loop s (Counter (pd ! d)) (length (pd ! d)) q acc =
    (if \<forall>t \<in> set q \<inter> vocabulary s. spec_defined (k1 s) (b s) pd d t
     then Inr (acc + spec_score (k1 s) (b s) (vocabulary s) pd d q)
     else Inl ZeroDivisionError)"
proof (induction q arbitrary: acc)
  case Nil
  then show ?case by (simp add: spec_score_def)
next
  case (Cons t q)
  show ?case
  proof (cases "t \<in> vocabulary s")
    case False
    then show ?thesis using Cons.IH by (simp add: spec_score_def)
  next
    case True
    then show ?thesis
      using Cons.IH assms
      by (auto simp: term_contribution_eq [OF assms(1)] get_or_Counter spec_defined_def
          spec_score_def spec_term_score_def spec_length_norm_def)
  qed
qed


lemma calculate_bm25_score_fitted:
  assumes "fit s0 docs = (Inr (), s)" and "d < length docs"
  shows "calculate_bm25_score s query (int d) =
    (if \<forall>t \<in> set (preprocess_text query) \<inter> vocabulary s.
          spec_defined (k1 s) (b s) (map preprocess_text docs) d t
     then Inr (spec_score (k1 s) (b s) (vocabulary s) (map preprocess_text docs) d
                 (preprocess_text query))
     else Inl ZeroDivisionError)"
proof -
  let ?pd = "map preprocess_text docs"
  have "calculate_bm25_score s query (int d) =
      score_loop s (Counter (?pd ! d)) (length (?pd ! d)) (preprocess_text query) 0"
    using assms(2) by (simp add: calculate_bm25_score_def fit_success [OF assms(1)] py_index_nat)
  also have "\<dots> = (if \<forall>t \<in> set (preprocess_text query) \<inter> vocabulary s.
          spec_defined (k1 s) (b s) ?pd d t
     then Inr (0 + spec_score (k1 s) (b s) (vocabulary s) ?pd d (preprocess_text query))
     else Inl ZeroDivisionError)"
    by (rule score_loop_eq) (simp_all add: fit_success [OF assms(1)])
  finally show ?thesis by simp
qed


subsection \<open>Explanations\<close>




subsection \<open>Keywords\<close>

lemma contribution_loop_eq:
  assumes idf: "idf_scores s t = Some (spec_idf pd t)"
    and avg: "avg_doc_length s = spec_avg pd"
    and dtf: "doc_term_freqs s = map Counter pd"
    and dls: "doc_lengths s = map length pd"
    and ds: "\<forall>d \<in> set ds. d < length pd"
  shows "contribution_loop s t ds (tot, cnt) =
    (if \<forall>d \<in> set ds. 0 < count_list (pd ! d) t \<longrightarrow> spec_defined (k1 s) (b s) pd d t
     then Inr (tot + sum_list (map (\<lambda>d. spec_term_score (k1 s) (b s) pd d t)
                          (filter (\<lambda>d. 0 < count_list (pd ! d) t) ds)),
               cnt + length (filter (\<lambda>d. 0 < count_list (pd ! d) t) ds))
     else Inl ZeroDivisionError)"
  using ds
proof (induction ds arbitrary: tot cnt)
  case Nil
  then show ?case by simp
next
  case (Cons d ds)
  have d: "d < length pd" using Cons.prems by simp
  have ih: "\<And>tot cnt. contribution_loop s t ds (tot, cnt) =
    (if \<forall>d \<in> set ds. 0 < count_list (pd ! d) t \<longrightarrow> spec_defined (k1 s) (b s) pd d t
     then Inr (tot + sum_list (map (\<lambda>d. spec_term_score (k1 s) (b s) pd d t)
                          (filter (\<lambda>d. 0 < count_list (pd ! d) t) ds)),
               cnt + length (filter (\<lambda>d. 0 < count_list (pd ! d) t) ds))
     else Inl ZeroDivisionError)"
    using Cons.IH Cons.prems by simp
  show ?case
  proof (cases "0 < count_list (pd ! d) t")
    case False
    then show ?thesis
      using d by (auto simp: dtf py_index_nat get_or_Counter ih)
  next
    case True
    have tc: "term_contribution s t (count_list (pd ! d) t) (length (pd ! d)) =
      (if spec_defined (k1 s) (b s) pd d t
       then Inr (spec_idf pd t, spec_length_norm (b s) pd d, spec_term_score (k1 s) (b s) pd d t)
       else Inl ZeroDivisionError)"
      by (simp add: term_contribution_eq [OF idf] avg spec_defined_def spec_term_score_def
          spec_length_norm_def)
    show ?thesis
      using d True
      by (auto simp: dtf dls py_index_nat get_or_Counter ih lookup_def dom_def idf tc)
  qed
qed

lemma keyword_loop_eq:
  assumes idf: "\<And>t. t \<in> vocabulary s \<Longrightarrow> idf_scores s t = Some (spec_idf pd t)"
    and avg: "avg_doc_length s = spec_avg pd"
    and dtf: "doc_term_freqs s = map Counter pd"
    and dls: "doc_lengths s = map length pd"
    and len: "length (documents s) = length pd"
  shows "keyword_loop s order acc =
    (if \<forall>t \<in> set order \<inter> vocabulary s. \<forall>d \<in> set (spec_docs_with pd t).
          spec_defined (k1 s) (b s) pd d t
     then Inr (acc @ map (\<lambda>t. (t, spec_mean_score (k1 s) (b s) pd t))
                       (filter (\<lambda>t. t \<in> vocabulary s \<and> spec_docs_with pd t \<noteq> []) order))
     else Inl ZeroDivisionError)"
proof (induction order arbitrary: acc)
  case Nil
  then show ?case by simp
next
  case (Cons t order)
  show ?case
  proof (cases "t \<in> vocabulary s")
    case False
    then show ?thesis using Cons.IH by simp
  next
    case True
    have c: "contribution_loop s t [0 ..< length (documents s)] (0, 0) =
      (if \<forall>d \<in> set (spec_docs_with pd t). spec_defined (k1 s) (b s) pd d t
       then Inr (sum_list (map (\<lambda>d. spec_term_score (k1 s) (b s) pd d t) (spec_docs_with pd t)),
                 length (spec_docs_with pd t))
       else Inl ZeroDivisionError)"
      using contribution_loop_eq [OF idf [OF True] avg dtf dls, of "[0 ..< length pd]" 0 0]
      by (auto simp: len spec_docs_with_def)
    show ?thesis
      using True Cons.IH
      by (simp add: c spec_mean_score_def)
  qed
qed

lemma keyword_loop_fitted:
  assumes "fit s0 docs = (Inr (), s)"
  shows "keyword_loop s order acc =
    (if \<forall>t \<in> set order \<inter> vocabulary s. \<forall>d \<in> set (spec_docs_with (map preprocess_text docs) t).
          spec_defined (k1 s) (b s) (map preprocess_text docs) d t
     then Inr (acc @ map (\<lambda>t. (t, spec_mean_score (k1 s) (b s) (map preprocess_text docs) t))
                       (filter (\<lambda>t. t \<in> vocabulary s \<and>
                                     spec_docs_with (map preprocess_text docs) t \<noteq> []) order))
     else Inl ZeroDivisionError)"
  by (rule keyword_loop_eq) (simp_all add: fit_success [OF assms])

lemma keywords_defined:
  assumes "0 < kk" and "0 \<le> bb" and "bb \<le> 1" and "d \<in> set (spec_docs_with pd t)"
  shows "spec_defined kk bb pd d t"
  using assms by (intro spec_defined_tf_pos) (auto simp: spec_docs_with_def)

subsection \<open>The IDF table covers the vocabulary\<close>

lemma fit_keeps_idf_total:
  assumes "vocabulary s \<subseteq> dom (idf_scores s)" and "fit s docs = (r, s')"
  shows "vocabulary s' \<subseteq> dom (idf_scores s')"
proof (cases "docs = []")
  case True
  then have "s' = s\<lparr>documents := [], doc_lengths := [], N := 0\<rparr>"
    using assms(2) by (simp add: fit_empty)
  then show ?thesis using assms(1) by simp
next
  case False
  then have "fit s docs = (Inr (), s')"
    using assms(2) by (simp add: fit_nonempty)
  then show ?thesis
    using fit_success(8) by blast
qed

lemma bm25_reachable_idf_total: "bm25_reachable s \<Longrightarrow> vocabulary s \<subseteq> dom (idf_scores s)"
proof (induction rule: bm25_reachable.induct)
  case (constructed kk bb s)
  then show ?case by (auto simp: BM25Calculator_def)
next
  case (after_fit s docs r s')
  from after_fit.IH after_fit.hyps(2) show ?case
    by (rule fit_keeps_idf_total)
qed

lemma tfidf_reachable_idf_total:
  "tfidf_reachable s \<Longrightarrow> tfidf_vocabulary s \<subseteq> dom (tfidf_idf_scores s)"
proof (induction rule: tfidf_reachable.induct)
  case tfidf_constructed
  then show ?case by (simp add: TFIDFCalculator_def)
next
  case (tfidf_after_fit s docs r s')
  then show ?case by (auto simp: tfidf_fit_eq)
qed

lemma score_loop_no_KeyError:
  assumes "vocabulary s \<subseteq> dom (idf_scores s)"
  shows "score_loop s dtf dl q acc \<noteq> Inl KeyError"
proof (induction q arbitrary: acc)
  case Nil
  then show ?case by simp
next
  case (Cons t q)
  show ?case
  proof (cases "t \<in> vocabulary s")
    case False
    then show ?thesis using Cons.IH by simp
  next
    case True
    then obtain v where v: "idf_scores s t = Some v" using assms by auto
    show ?thesis
      using True Cons.IH by (simp add: term_contribution_eq [OF v])
  qed
qed

lemma calculate_bm25_score_no_KeyError:
  assumes "vocabulary s \<subseteq> dom (idf_scores s)"
  shows "calculate_bm25_score s query d \<noteq> Inl KeyError"
proof -
  have "ebind (py_index (doc_lengths s) d) (\<lambda>dl. score_loop s dtf dl q 0) \<noteq> Inl KeyError" for dtf q
    using score_loop_no_KeyError [OF assms]
    by (cases "py_index (doc_lengths s) d") (auto simp: py_index_def split: if_splits)
  then show ?thesis
    by (cases "py_index (doc_term_freqs s) d")
      (auto simp: calculate_bm25_score_def py_index_def split: if_splits)
qed

lemma vector_loop_no_KeyError:
  assumes "tfidf_vocabulary s \<subseteq> dom (tfidf_idf_scores s)"
  shows "vector_loop s tokens rest acc \<noteq> Inl KeyError"
proof (induction rest arbitrary: acc)
  case Nil
  then show ?case by simp
next
  case (Cons t rest)
  show ?case
  proof (cases "t \<in> tfidf_vocabulary s")
    case False
    then show ?thesis using Cons.IH by simp
  next
    case True
    then have "t \<in> dom (tfidf_idf_scores s)" using assms by auto
    then show ?thesis
      using True Cons.IH by (simp add: lookup_def Let_def)
  qed
qed

subsection \<open>Before and after the first fit\<close>

text \<open>
  The ranker and the TF-IDF calculator refuse to work before a fit; a successful fit of
  the ranker sets its flag.
\<close>

lemma search_before_fit:
  "BM25DocumentRanker kk bb = Inr r \<Longrightarrow>
   search r query top_k = Inl (ValueError ''Ranker must be fitted before searching'')"
  by (auto simp: BM25DocumentRanker_def BM25Calculator_def search_def)

lemma calculate_tfidf_vector_before_fit:
  "calculate_tfidf_vector TFIDFCalculator input =
     Inl (ValueError ''Must call fit() with documents before calculating TF-IDF'')"
  by (simp add: calculate_tfidf_vector_def TFIDFCalculator_def)

lemma ranker_fit_fitted:
  "docs \<noteq> [] \<Longrightarrow> fst (ranker_fit r docs) = Inr () \<and> fitted (snd (ranker_fit r docs))"
  by (simp add: ranker_fit_def fit_nonempty Let_def)

subsection \<open>The concrete objects\<close>

lemma tok1: "preprocess_text ''the cat sat'' = [''the'', ''cat'', ''sat'']"
  by code_simp

lemma tok2: "preprocess_text ''the dog ran'' = [''the'', ''dog'', ''ran'']"
  by code_simp

lemma tok3: "preprocess_text ''cats and dogs'' = [''cats'', ''and'', ''dogs'']"
  by code_simp

lemma tok4: "preprocess_text ''cat dog'' = [''cat'', ''dog'']"
  by code_simp

lemma tok5: "preprocess_text ''a'' = [''a'']"
  by code_simp

lemma example_length: "length example_corpus = 3"
  by (simp add: example_corpus_def)

lemma example_fit:
  "fit (projr (BM25Calculator 1.2 0.75)) example_corpus = (Inr (), example_calculator)"
  by (simp add: example_calculator_def example_corpus_def fit_nonempty)

lemma example_tokens:
  "map preprocess_text example_corpus =
     [[''the'', ''cat'', ''sat''], [''the'', ''dog'', ''ran''], [''cats'', ''and'', ''dogs'']]"
  by (simp add: example_corpus_def tok1 tok2 tok3)

lemma example_fields:
  "k1 example_calculator = 6 / 5" "b example_calculator = 3 / 4"
  "vocabulary example_calculator =
     {''the'', ''cat'', ''sat'', ''dog'', ''ran'', ''cats'', ''and'', ''dogs''}"
  using fit_success(7,10,11) [OF example_fit] example_tokens
  by (auto simp add: BM25Calculator_def fitted_vocabulary_def example_corpus_def)

lemma example_lengths: "doc_lengths example_calculator = [3, 3, 3]"
  using fit_success(4) [OF example_fit] by (simp add: example_tokens)




lemma invalid_fit:
  "fit (projr (BM25Calculator (- 2) 2)) example_corpus = (Inr (), invalid_calculator)"
  by (simp add: invalid_calculator_def example_corpus_def fit_nonempty)

lemma invalid_fields:
  "k1 invalid_calculator = - 2" "b invalid_calculator = 2"
  "vocabulary invalid_calculator =
     {''the'', ''cat'', ''sat'', ''dog'', ''ran'', ''cats'', ''and'', ''dogs''}"
  using fit_success(7,10,11) [OF invalid_fit] example_tokens
  by (auto simp add: BM25Calculator_def fitted_vocabulary_def example_corpus_def)

lemma tok0: "preprocess_text '''' = []"
  by code_simp

lemma tokenless_fit:
  "fit (projr (BM25Calculator 1.2 0.75)) [''''] = (Inr (), tokenless_calculator)"
  by (simp add: tokenless_calculator_def fit_nonempty)

lemma tokenless_avg: "avg_doc_length tokenless_calculator = 0"
  using fit_success(6) [OF tokenless_fit] by (simp add: spec_avg_def tok0)

lemma edge_fit:
  "fit (projr (BM25Calculator 1.2 1)) [''a'', ''''] = (Inr (), edge_calculator)"
  by (simp add: edge_calculator_def fit_nonempty)

lemma edge_fields:
  "k1 edge_calculator = 6 / 5" "b edge_calculator = 1" "vocabulary edge_calculator = {''a''}"
  using fit_success(7,10,11) [OF edge_fit]
  by (auto simp add: BM25Calculator_def fitted_vocabulary_def tok0 tok5)

lemma edge_score_undefined:
  "calculate_bm25_score edge_calculator ''a'' 1 = Inl ZeroDivisionError"
  using calculate_bm25_score_fitted [OF edge_fit, of 1 "''a''"]
  by (simp add: edge_fields tok0 tok5 spec_defined_def spec_length_norm_def spec_avg_def)

lemma edge_rank_undefined:
  "rank_documents edge_calculator ''a'' None = Inl ZeroDivisionError"
proof -
  have "documents edge_calculator = [''a'', '''']"
    using fit_success(2) [OF edge_fit] .
  moreover have "calculate_bm25_score edge_calculator ''a'' (int 1) = Inl ZeroDivisionError"
    using edge_score_undefined by simp
  moreover have "\<exists>v. calculate_bm25_score edge_calculator ''a'' (int 0) = Inr v"
    using calculate_bm25_score_fitted [OF edge_fit, of 0 "''a''"]
    by (simp add: edge_fields tok0 tok5 spec_defined_def spec_length_norm_def spec_avg_def)
  ultimately show ?thesis
    by (auto simp: rank_documents_def upt_rec)
qed

lemma refitted_fit: "fit example_calculator [''a''] = (Inr (), refitted_calculator)"
  by (simp add: refitted_calculator_def fit_nonempty)

lemma refitted_vocabulary:
  "vocabulary refitted_calculator =
     {''the'', ''cat'', ''sat'', ''dog'', ''ran'', ''cats'', ''and'', ''dogs''} \<union> {''a''}"
  using fit_success(7) [OF refitted_fit]
  by (simp add: example_fields fitted_vocabulary_def tok5)

lemma example_tfidf_vocabulary:
  "tfidf_vocabulary example_tfidf =
     {''the'', ''cat'', ''sat'', ''dog'', ''ran'', ''cats'', ''and'', ''dogs''}"
  using example_tokens
  by (auto simp: example_tfidf_def tfidf_fit_eq fitted_vocabulary_def TFIDFCalculator_def
      example_corpus_def)

lemma refitted_tfidf_vocabulary:
  "tfidf_vocabulary refitted_tfidf =
     {''the'', ''cat'', ''sat'', ''dog'', ''ran'', ''cats'', ''and'', ''dogs''} \<union> {''a''}"
  by (simp add: refitted_tfidf_def tfidf_fit_eq fitted_vocabulary_def tok5
      example_tfidf_vocabulary)

lemma refitted_reachable: "bm25_reachable refitted_calculator"
proof -
  have "BM25Calculator 1.2 0.75 = Inr (projr (BM25Calculator 1.2 0.75))"
    by (simp add: BM25Calculator_def)
  then have "bm25_reachable (projr (BM25Calculator 1.2 0.75))"
    by (rule bm25_reachable.constructed)
  then have "bm25_reachable example_calculator"
    using example_fit by (rule bm25_reachable.after_fit)
  then show ?thesis
    using refitted_fit by (rule bm25_reachable.after_fit)
qed

lemma refitted_tfidf_reachable: "tfidf_reachable refitted_tfidf"
proof -
  have "tfidf_fit TFIDFCalculator example_corpus = (Inr (), example_tfidf)"
    by (simp add: example_tfidf_def tfidf_fit_eq)
  with tfidf_reachable.tfidf_constructed have "tfidf_reachable example_tfidf"
    by (rule tfidf_reachable.tfidf_after_fit)
  moreover have "tfidf_fit example_tfidf [''a''] = (Inr (), refitted_tfidf)"
    by (simp add: refitted_tfidf_def tfidf_fit_eq)
  ultimately show ?thesis
    by (rule tfidf_reachable.tfidf_after_fit)
qed

section \<open>Construction\<close>

text \<open>
  C3 (as the code has it): constructing a BM25 calculator succeeds for every pair of
  parameters, valid or not, and stores them unchanged; nothing validates them later
  either. A fit keeps them, and a score computed with them is a number, or the
  \<^verbatim>\<open>ZeroDivisionError\<close> of a divisor that they make zero.
\<close>

theorem BM25Calculator_never_fails:
  "\<exists>s. BM25Calculator kk bb = Inr s \<and> k1 s = kk \<and> b s = bb \<and>
     (\<forall>docs s' query d. fit s docs = (Inr (), s') \<and> d < length docs \<longrightarrow>
        k1 s' = kk \<and> b s' = bb \<and>
        ((\<exists>v. calculate_bm25_score s' query (int d) = Inr v) \<or>
         calculate_bm25_score s' query (int d) = Inl ZeroDivisionError))"
proof -
  let ?s = "projr (BM25Calculator kk bb)"
  have c: "BM25Calculator kk bb = Inr ?s" "k1 ?s = kk" "b ?s = bb"
    by (simp_all add: BM25Calculator_def)
  have "k1 s' = kk \<and> b s' = bb \<and>
        ((\<exists>v. calculate_bm25_score s' query (int d) = Inr v) \<or>
         calculate_bm25_score s' query (int d) = Inl ZeroDivisionError)"
    if "fit ?s docs = (Inr (), s') \<and> d < length docs" for docs s' query d
  proof -
    from that have f: "fit ?s docs = (Inr (), s')" and d: "d < length docs" by auto
    show ?thesis
      using fit_success(10,11) [OF f] c(2,3)
      by (simp add: calculate_bm25_score_fitted [OF f d])
  qed
  with c show ?thesis by blast
qed

theorem BM25Calculator_never_fails_witness:
  "BM25Calculator (- 2) 2 = Inr (projr (BM25Calculator (- 2) 2)) \<and>
   fit (projr (BM25Calculator (- 2) 2)) example_corpus = (Inr (), invalid_calculator) \<and>
   (0::nat) < length example_corpus \<and>
   k1 invalid_calculator = - 2 \<and> b invalid_calculator = 2 \<and>
   ((\<exists>v. calculate_bm25_score invalid_calculator ''cat dog'' 0 = Inr v) \<or>
    calculate_bm25_score invalid_calculator ''cat dog'' 0 = Inl ZeroDivisionError)"
proof -
  obtain s where s: "BM25Calculator (- 2) 2 = Inr s"
    and use: "\<forall>docs s' query d. fit s docs = (Inr (), s') \<and> d < length docs \<longrightarrow>
        k1 s' = - 2 \<and> b s' = 2 \<and>
        ((\<exists>v. calculate_bm25_score s' query (int d) = Inr v) \<or>
         calculate_bm25_score s' query (int d) = Inl ZeroDivisionError)"
    using BM25Calculator_never_fails [of "- 2" 2] by blast
  have p: "s = projr (BM25Calculator (- 2) 2)"
    by (simp add: s)
  have len: "(0::nat) < length example_corpus"
    by (simp add: example_length)
  have "fit s example_corpus = (Inr (), invalid_calculator) \<and> 0 < length example_corpus"
    using invalid_fit len by (simp add: p)
  then have "k1 invalid_calculator = - 2 \<and> b invalid_calculator = 2 \<and>
        ((\<exists>v. calculate_bm25_score invalid_calculator ''cat dog'' (int 0) = Inr v) \<or>
         calculate_bm25_score invalid_calculator ''cat dog'' (int 0) = Inl ZeroDivisionError)"
    using use by blast
  then show ?thesis
    using s invalid_fit len by (simp add: p)
qed

text \<open>
  C3 fails as stated: with \<open>k1 = -2\<close> and \<open>b = 2\<close> the constructor returns an object,
  the object is fitted, and a query is scored.
\<close>

theorem BM25Calculator_invalid_parameters_accepted:
  "BM25Calculator (- 2) 2 =
     Inr \<lparr>k1 = - 2, b = 2, documents = [], doc_lengths = [], avg_doc_length = 0,
          vocabulary = {}, doc_term_freqs = [], idf_scores = Map.empty, N = 0\<rparr> \<and>
   fit (projr (BM25Calculator (- 2) 2)) example_corpus = (Inr (), invalid_calculator) \<and>
   calculate_bm25_score invalid_calculator ''cat dog'' 0 = Inr (ln (5 / 3))"
proof -
  have len: "(0::nat) < length example_corpus"
    by (simp add: example_length)
  have "calculate_bm25_score invalid_calculator ''cat dog'' 0 = Inr (ln (5 / 3))"
    using calculate_bm25_score_fitted [OF invalid_fit len, of "''cat dog''"]
    by (simp add: invalid_fields example_tokens tok4 spec_defined_def spec_score_def
        spec_term_score_def spec_length_norm_def spec_avg_def spec_idf_def spec_df_def)
  then show ?thesis
    using invalid_fit by (simp add: BM25Calculator_def)
qed

section \<open>Fitting an empty corpus\<close>

text \<open>
  C1 (as the code has it): neither engine has a check for an empty corpus. The BM25
  \<^verbatim>\<open>fit\<close> on an empty sequence raises \<^verbatim>\<open>ZeroDivisionError\<close> when it computes the
  average length, after it has emptied \<^verbatim>\<open>documents\<close> and \<^verbatim>\<open>doc_lengths\<close> and set
  \<^verbatim>\<open>N\<close> to zero; the vocabulary, the IDF table, the term frequencies and the average
  keep their values. The TF-IDF \<^verbatim>\<open>fit\<close> on an empty sequence does not fail: it empties
  \<^verbatim>\<open>documents\<close>, keeps the vocabulary and sets the IDF of each of its terms to zero.
\<close>

theorem fit_empty_corpus:
  "fit s [] = (Inl ZeroDivisionError, s\<lparr>documents := [], doc_lengths := [], N := 0\<rparr>) \<and>
   tfidf_fit t [] =
     (Inr (),
      t\<lparr>tfidf_documents := [],
        tfidf_idf_scores :=
          (\<lambda>term. if term \<in> tfidf_vocabulary t then Some 0 else tfidf_idf_scores t term)\<rparr>)"
  by (simp add: fit_empty tfidf_fit_eq fitted_vocabulary_def spec_tfidf_idf_def spec_df_def
      cong: if_cong)

text \<open>
  C1 fails as stated: the TF-IDF \<^verbatim>\<open>fit\<close> of an empty sequence returns normally, and the
  failed BM25 \<^verbatim>\<open>fit\<close> of an empty sequence has replaced the documents of a fitted
  calculator.
\<close>

theorem fit_empty_corpus_not_rejected:
  "fst (tfidf_fit TFIDFCalculator []) = Inr () \<and>
   documents (snd (fit example_calculator [])) \<noteq> documents example_calculator"
  using fit_success(2) [OF example_fit]
  by (simp add: tfidf_fit_eq fit_empty example_corpus_def)

section \<open>Fitting a second time\<close>

text \<open>
  C2 does not hold of the code: \<^verbatim>\<open>fit\<close> replaces the documents, the lengths, the term
  frequencies and the average, but adds to the vocabulary without emptying it first.
  After fitting the small corpus and then the single document \<open>a\<close>, the term \<open>cat\<close>,
  which is no token of \<open>a\<close>, is still in the vocabulary of both calculators, while a
  fresh calculator fitted to \<open>a\<close> alone does not have it.
\<close>

theorem refit_keeps_old_vocabulary:
  "''cat'' \<notin> set (preprocess_text ''a'') \<and>
   ''cat'' \<in> vocabulary (snd (fit (snd (fit (projr (BM25Calculator 1.2 0.75)) example_corpus)) [''a''])) \<and>
   ''cat'' \<notin> vocabulary (snd (fit (projr (BM25Calculator 1.2 0.75)) [''a''])) \<and>
   ''cat'' \<in> tfidf_vocabulary (snd (tfidf_fit (snd (tfidf_fit TFIDFCalculator example_corpus)) [''a''])) \<and>
   ''cat'' \<notin> tfidf_vocabulary (snd (tfidf_fit TFIDFCalculator [''a'']))"
proof -
  have "''cat'' \<in> vocabulary refitted_calculator"
    by (simp add: refitted_vocabulary)
  moreover have "''cat'' \<in> tfidf_vocabulary refitted_tfidf"
    by (simp add: refitted_tfidf_vocabulary)
  moreover have "''cat'' \<notin> vocabulary (snd (fit (projr (BM25Calculator 1.2 0.75)) [''a'']))"
    by (simp add: fit_nonempty fitted_vocabulary_def tok5 BM25Calculator_def)
  moreover have "''cat'' \<notin> tfidf_vocabulary (snd (tfidf_fit TFIDFCalculator [''a'']))"
    by (simp add: tfidf_fit_eq fitted_vocabulary_def tok5 TFIDFCalculator_def)
  ultimately show ?thesis
    by (simp add: refitted_calculator_def example_calculator_def refitted_tfidf_def
        example_tfidf_def tok5)
qed

section \<open>The average document length\<close>

text \<open>
  C6 (as the code has it): a fit succeeds exactly on a non-empty sequence, and then
  \<^verbatim>\<open>avg_doc_length\<close> is the sum of the document lengths over the number of documents,
  never negative, and positive exactly when some document has a token. When it is
  positive the ratio \<^verbatim>\<open>doc_length / avg_doc_length\<close> is defined; when it is zero (no
  document has a token, which \<^verbatim>\<open>fit\<close> accepts) \<^verbatim>\<open>get_term_analysis\<close> raises
  \<^verbatim>\<open>ZeroDivisionError\<close> at every index of the corpus.
\<close>

theorem fit_avg_doc_length:
  assumes "fit s0 docs = (Inr (), s)"
  shows "docs \<noteq> [] \<and>
    avg_doc_length s = real (sum_list (doc_lengths s)) / real (length docs) \<and>
    0 \<le> avg_doc_length s \<and>
    (0 < avg_doc_length s \<longleftrightarrow> (\<exists>doc \<in> set docs. preprocess_text doc \<noteq> [])) \<and>
    (0 < avg_doc_length s \<longrightarrow>
       (\<forall>n. py_div (real n) (avg_doc_length s) = Inr (real n / avg_doc_length s))) \<and>
    (avg_doc_length s = 0 \<longrightarrow>
       (\<forall>query i order. - int (length docs) \<le> i \<and> i < int (length docs) \<longrightarrow>
          get_term_analysis s query i order = Inl ZeroDivisionError))"
proof -
  note f = fit_success [OF assms]
  have ne: "docs \<noteq> []" by (rule f(1))
  have avg: "avg_doc_length s = real (sum_list (doc_lengths s)) / real (length docs)"
    by (simp add: f spec_avg_def)
  have len: "0 < real (length docs)" using ne by simp
  have pos: "0 < avg_doc_length s \<longleftrightarrow> (\<exists>doc \<in> set docs. preprocess_text doc \<noteq> [])"
    using len by (auto simp: avg f(4) zero_less_divide_iff sum_list_pos_iff comp_def)
  have nonneg: "0 \<le> avg_doc_length s"
    by (simp add: avg)
  have ratio: "py_div (real n) (avg_doc_length s) = Inr (real n / avg_doc_length s)"
    if "0 < avg_doc_length s" for n
    using that by (simp add: py_div_def)
  have raises: "get_term_analysis s query i order = Inl ZeroDivisionError"
    if "avg_doc_length s = 0" and "- int (length docs) \<le> i" and "i < int (length docs)"
    for query i order
    using that
    by (simp add: get_term_analysis_def py_index_def f(4,5) py_div_def)
  from ne avg nonneg pos ratio raises show ?thesis by blast
qed

theorem fit_avg_doc_length_witness:
  "fit (projr (BM25Calculator 1.2 0.75)) example_corpus = (Inr (), example_calculator) \<and>
   avg_doc_length example_calculator = 3 \<and>
   py_div (real 3) (avg_doc_length example_calculator) = Inr 1 \<and>
   fit (projr (BM25Calculator 1.2 0.75)) [''''] = (Inr (), tokenless_calculator) \<and>
   avg_doc_length tokenless_calculator = 0 \<and>
   get_term_analysis tokenless_calculator ''cat'' 0 [''cat''] = Inl ZeroDivisionError"
proof -
  have "avg_doc_length example_calculator = 3"
    using fit_avg_doc_length [OF example_fit]
    by (simp add: example_lengths example_corpus_def)
  moreover have "get_term_analysis tokenless_calculator ''cat'' 0 [''cat''] = Inl ZeroDivisionError"
    using fit_avg_doc_length [OF tokenless_fit] tokenless_avg by simp
  ultimately show ?thesis
    using example_fit tokenless_fit tokenless_avg by (simp add: py_div_def)
qed

text \<open>
  C6 fails as stated: the corpus of one empty document is fitted without an error and
  leaves \<^verbatim>\<open>avg_doc_length = 0\<close>.
\<close>

theorem fit_accepts_tokenless_corpus:
  "fst (fit (projr (BM25Calculator 1.2 0.75)) ['''']) = Inr () \<and>
   avg_doc_length (snd (fit (projr (BM25Calculator 1.2 0.75)) [''''])) = 0"
proof -
  have "preprocess_text '''' = []" by code_simp
  then show ?thesis
    by (simp add: fit_nonempty)
qed

section \<open>The IDF table covers the vocabulary\<close>

text \<open>
  C10: in every BM25 calculator and every TF-IDF calculator reached from a fresh one by
  any sequence of \<^verbatim>\<open>fit\<close> calls, each term of the vocabulary has an entry in the IDF
  table, so the lookup \<^verbatim>\<open>self.idf_scores[term]\<close> that scoring performs for a term of
  the vocabulary never raises \<^verbatim>\<open>KeyError\<close>; this includes terms that the vocabulary
  has kept from earlier fits.
\<close>

theorem vocabulary_has_idf:
  "(bm25_reachable s \<longrightarrow>
      vocabulary s \<subseteq> dom (idf_scores s) \<and>
      (\<forall>query d. calculate_bm25_score s query d \<noteq> Inl KeyError)) \<and>
   (tfidf_reachable t \<longrightarrow>
      tfidf_vocabulary t \<subseteq> dom (tfidf_idf_scores t) \<and>
      (\<forall>input. calculate_tfidf_vector t input \<noteq> Inl KeyError))"
proof (intro conjI impI allI)
  assume "bm25_reachable s"
  then show v: "vocabulary s \<subseteq> dom (idf_scores s)"
    by (rule bm25_reachable_idf_total)
  show "calculate_bm25_score s query d \<noteq> Inl KeyError" for query d
    using v by (rule calculate_bm25_score_no_KeyError)
next
  assume "tfidf_reachable t"
  then show v: "tfidf_vocabulary t \<subseteq> dom (tfidf_idf_scores t)"
    by (rule tfidf_reachable_idf_total)
  show "calculate_tfidf_vector t input \<noteq> Inl KeyError" for input
    using vector_loop_no_KeyError [OF v] by (simp add: calculate_tfidf_vector_def)
qed

theorem vocabulary_has_idf_witness:
  "bm25_reachable refitted_calculator \<and> ''cat'' \<in> vocabulary refitted_calculator \<and>
   ''cat'' \<in> dom (idf_scores refitted_calculator) \<and>
   calculate_bm25_score refitted_calculator ''cat'' 0 \<noteq> Inl KeyError \<and>
   tfidf_reachable refitted_tfidf \<and> ''cat'' \<in> tfidf_vocabulary refitted_tfidf \<and>
   ''cat'' \<in> dom (tfidf_idf_scores refitted_tfidf) \<and>
   calculate_tfidf_vector refitted_tfidf ''cat'' \<noteq> Inl KeyError"
proof -
  have c: "''cat'' \<in> vocabulary refitted_calculator"
    by (simp add: refitted_vocabulary)
  have c': "''cat'' \<in> tfidf_vocabulary refitted_tfidf"
    by (simp add: refitted_tfidf_vocabulary)
  show ?thesis
    using vocabulary_has_idf [of refitted_calculator refitted_tfidf]
      refitted_reachable refitted_tfidf_reachable c c'
    by blast
qed

section \<open>The BM25 score of a document\<close>



section \<open>Ranking the corpus\<close>



section \<open>The document index of an explanation\<close>




section \<open>The keywords of a query\<close>

text \<open>
  C9: after a successful fit, \<^verbatim>\<open>get_top_keywords\<close> gives each distinct query term that
  is in the vocabulary and occurs in some document the arithmetic mean of its BM25 term
  score over the documents in which its term frequency is not zero; the other documents
  enter neither the sum nor the divisor, and a term that occurs in no document is left
  out. It returns the first \<^verbatim>\<open>top_k\<close> of these pairs in non-increasing order of the
  mean. The result is defined whenever the term scores involved are, which is the case
  for all parameters with \<open>k1 > 0\<close> and \<open>0 \<le> b \<le> 1\<close>; otherwise the call raises
  \<^verbatim>\<open>ZeroDivisionError\<close>. The list \<open>order\<close> is the order in which Python iterates over
  the set of query terms.
\<close>

theorem get_top_keywords_mean:
  assumes "fit s0 docs = (Inr (), s)" and "distinct order"
    and "set order = set (preprocess_text query)" and "0 \<le> top_k"
  shows "(if \<forall>t \<in> set (preprocess_text query) \<inter> vocabulary s.
            \<forall>d \<in> set (spec_docs_with (map preprocess_text docs) t).
              spec_defined (k1 s) (b s) (map preprocess_text docs) d t
     then (\<exists>full. get_top_keywords s query top_k order = Inr (take (nat top_k) full) \<and>
            distinct (map fst full) \<and>
            set (map fst full) =
              {t \<in> set (preprocess_text query) \<inter> vocabulary s.
                 spec_docs_with (map preprocess_text docs) t \<noteq> []} \<and>
            (\<forall>(t, v) \<in> set full.
               v = spec_mean_score (k1 s) (b s) (map preprocess_text docs) t) \<and>
            sorted_wrt (\<lambda>x y. snd x \<ge> snd y) full)
     else get_top_keywords s query top_k order = Inl ZeroDivisionError) \<and>
    (0 < k1 s \<and> 0 \<le> b s \<and> b s \<le> 1 \<longrightarrow>
       (\<forall>t \<in> set (preprocess_text query) \<inter> vocabulary s.
            \<forall>d \<in> set (spec_docs_with (map preprocess_text docs) t).
              spec_defined (k1 s) (b s) (map preprocess_text docs) d t))"
proof -
  let ?pd = "map preprocess_text docs"
  let ?ok = "\<forall>t \<in> set (preprocess_text query) \<inter> vocabulary s.
            \<forall>d \<in> set (spec_docs_with ?pd t). spec_defined (k1 s) (b s) ?pd d t"
  let ?cand = "filter (\<lambda>t. t \<in> vocabulary s \<and> spec_docs_with ?pd t \<noteq> []) order"
  let ?scores = "map (\<lambda>t. (t, spec_mean_score (k1 s) (b s) ?pd t)) ?cand"
  let ?full = "py_sorted_desc snd ?scores"
  have loop: "keyword_loop s order [] = (if ?ok then Inr ?scores else Inl ZeroDivisionError)"
    using keyword_loop_fitted [OF assms(1), of order "[]"] by (simp add: assms(3))
  have valid: "?ok" if h: "0 < k1 s \<and> 0 \<le> b s \<and> b s \<le> 1"
  proof (intro ballI)
    fix t d
    assume "d \<in> set (spec_docs_with ?pd t)"
    then show "spec_defined (k1 s) (b s) ?pd d t"
      using h by (intro keywords_defined) auto
  qed
  have main: "if ?ok
     then (\<exists>full. get_top_keywords s query top_k order = Inr (take (nat top_k) full) \<and>
            distinct (map fst full) \<and>
            set (map fst full) =
              {t \<in> set (preprocess_text query) \<inter> vocabulary s. spec_docs_with ?pd t \<noteq> []} \<and>
            (\<forall>(t, v) \<in> set full. v = spec_mean_score (k1 s) (b s) ?pd t) \<and>
            sorted_wrt (\<lambda>x y. snd x \<ge> snd y) full)
     else get_top_keywords s query top_k order = Inl ZeroDivisionError"
  proof (cases ?ok)
    case False
    have "keyword_loop s order [] = Inl ZeroDivisionError"
      unfolding loop if_not_P [OF False] ..
    then have "get_top_keywords s query top_k order = Inl ZeroDivisionError"
      by (simp add: get_top_keywords_def)
    then show ?thesis
      unfolding if_not_P [OF False] .
  next
    case True
    have "keyword_loop s order [] = Inr ?scores"
      unfolding loop if_P [OF True] ..
    then have res: "get_top_keywords s query top_k order = Inr (take (nat top_k) ?full)"
      using assms(4) by (simp add: get_top_keywords_def py_slice_to_def)
    have fst_scores: "map fst ?scores = ?cand"
      by (simp add: comp_def)
    have m: "mset (map fst ?full) = mset ?cand"
      using py_sorted_desc_map_mset [of fst snd ?scores] by (simp only: fst_scores)
    have "distinct ?cand" using assms(2) by simp
    then have dist: "distinct (map fst ?full)"
      unfolding mset_eq_imp_distinct_iff [OF m] .
    have "set (map fst ?full) = set ?cand"
      using m by (rule mset_eq_setD)
    then have keys: "set (map fst ?full) =
        {t \<in> set (preprocess_text query) \<inter> vocabulary s. spec_docs_with ?pd t \<noteq> []}"
      using assms(3) by auto
    have vals: "\<forall>(t, v) \<in> set ?full. v = spec_mean_score (k1 s) (b s) ?pd t"
      unfolding py_sorted_desc_set by auto
    have srt: "sorted_wrt (\<lambda>x y. snd x \<ge> snd y) ?full"
      by (rule py_sorted_desc_sorted)
    from res dist keys vals srt have
      "\<exists>full. get_top_keywords s query top_k order = Inr (take (nat top_k) full) \<and>
            distinct (map fst full) \<and>
            set (map fst full) =
              {t \<in> set (preprocess_text query) \<inter> vocabulary s. spec_docs_with ?pd t \<noteq> []} \<and>
            (\<forall>(t, v) \<in> set full. v = spec_mean_score (k1 s) (b s) ?pd t) \<and>
            sorted_wrt (\<lambda>x y. snd x \<ge> snd y) full"
      by (intro exI [of _ ?full] conjI)
    then show ?thesis
      unfolding if_P [OF True] .
  qed
  show ?thesis
  proof (rule conjI)
    show "if ?ok
     then (\<exists>full. get_top_keywords s query top_k order = Inr (take (nat top_k) full) \<and>
            distinct (map fst full) \<and>
            set (map fst full) =
              {t \<in> set (preprocess_text query) \<inter> vocabulary s. spec_docs_with ?pd t \<noteq> []} \<and>
            (\<forall>(t, v) \<in> set full. v = spec_mean_score (k1 s) (b s) ?pd t) \<and>
            sorted_wrt (\<lambda>x y. snd x \<ge> snd y) full)
     else get_top_keywords s query top_k order = Inl ZeroDivisionError"
      by (rule main)
    show "0 < k1 s \<and> 0 \<le> b s \<and> b s \<le> 1 \<longrightarrow> ?ok"
      using valid by (rule impI)
  qed
qed

theorem get_top_keywords_mean_witness:
  "fit (projr (BM25Calculator 1.2 0.75)) example_corpus = (Inr (), example_calculator) \<and>
   distinct [''cat'', ''dog''] \<and> set [''cat'', ''dog''] = set (preprocess_text ''cat dog'') \<and>
   (0::int) \<le> 10 \<and>
   (\<exists>full. get_top_keywords example_calculator ''cat dog'' 10 [''cat'', ''dog''] =
        Inr (take 10 full) \<and>
      set (map fst full) = {''cat'', ''dog''} \<and>
      (\<forall>(t, v) \<in> set full.
          v = spec_mean_score (6 / 5) (3 / 4) (map preprocess_text example_corpus) t))"
proof -
  let ?pd = "map preprocess_text example_corpus"
  have d: "distinct [''cat'', ''dog'']" by simp
  have o: "set [''cat'', ''dog''] = set (preprocess_text ''cat dog'')" by (simp add: tok4)
  have k: "(0::int) \<le> 10" by simp
  note t = get_top_keywords_mean [OF example_fit d o k]
  have p: "0 < k1 example_calculator \<and> 0 \<le> b example_calculator \<and> b example_calculator \<le> 1"
    by (simp add: example_fields)
  have c: "\<forall>t \<in> set (preprocess_text ''cat dog'') \<inter> vocabulary example_calculator.
      \<forall>d \<in> set (spec_docs_with ?pd t).
        spec_defined (k1 example_calculator) (b example_calculator) ?pd d t"
    by (rule mp [OF conjunct2 [OF t] p])
  obtain full where full:
    "get_top_keywords example_calculator ''cat dog'' 10 [''cat'', ''dog''] = Inr (take (nat 10) full)"
    "set (map fst full) = {t \<in> set (preprocess_text ''cat dog'') \<inter> vocabulary example_calculator.
        spec_docs_with ?pd t \<noteq> []}"
    "\<forall>(t, v) \<in> set full.
        v = spec_mean_score (k1 example_calculator) (b example_calculator) ?pd t"
    using conjunct1 [OF t] unfolding if_P [OF c] by blast
  have docs_with: "spec_docs_with ?pd ''cat'' = [0]" "spec_docs_with ?pd ''dog'' = [1]"
    by (simp_all add: spec_docs_with_def example_tokens upt_rec)
  have keys: "{t \<in> set (preprocess_text ''cat dog'') \<inter> vocabulary example_calculator.
           spec_docs_with ?pd t \<noteq> []} = {''cat'', ''dog''}"
    using docs_with by (auto simp: tok4 example_fields)
  have "\<exists>full. get_top_keywords example_calculator ''cat dog'' 10 [''cat'', ''dog''] =
        Inr (take 10 full) \<and>
      set (map fst full) = {''cat'', ''dog''} \<and>
      (\<forall>(t, v) \<in> set full. v = spec_mean_score (6 / 5) (3 / 4) ?pd t)"
    using full(1) full(2) [unfolded keys] full(3) [unfolded example_fields(1,2)]
    by (intro exI [of _ full]) simp
  with example_fit d o k show ?thesis
    by (intro conjI)
qed

section \<open>Ranking before any fit\<close>

text \<open>
  C8 does not hold of the code: \<^verbatim>\<open>BM25Calculator.rank_documents\<close> on a calculator that
  was never fitted returns the empty list, for every query and every \<^verbatim>\<open>top_k\<close>, where
  \<^verbatim>\<open>BM25DocumentRanker.search\<close> and \<^verbatim>\<open>TFIDFCalculator.calculate_tfidf_vector\<close> raise
  their not-fitted \<^verbatim>\<open>ValueError\<close>.
\<close>

theorem rank_documents_before_fit:
  "rank_documents (projr (BM25Calculator kk bb)) query top_k = Inr []"
  by (cases top_k) (simp_all add: rank_documents_def BM25Calculator_def py_sorted_desc_def
      py_slice_to_def)

end
